theory Spec2Isabelle
  imports Main
begin

section \<open>Data model\<close>

text \<open>
  Opaque JSON payloads (\<open>unknown\<close> in the TypeScript): tool arguments, tool results,
  resource values.
\<close>

datatype jval =
  JNull | JBool bool | JNum int | JStr string | JArr "jval list" | JObj "(string \<times> jval) list"

text \<open>\<open>PendingToolCall\<close> and \<open>ToolResult\<close> of \<open>@octavus/core\<close>; an optional field is an option.\<close>

record pending_tool_call =
  tc_toolCallId :: string
  tc_toolName :: string
  tc_args :: jval
  tc_outputVariable :: "string option"
  tc_blockIndex :: "nat option"
  tc_thread :: "string option"
  tc_workerId :: "string option"

record tool_result =
  tr_toolCallId :: string
  tr_toolName :: string
  tr_result :: "jval option"
  tr_error :: "string option"
  tr_outputVariable :: "string option"
  tr_blockIndex :: "nat option"
  tr_thread :: "string option"
  tr_workerId :: "string option"

text \<open>
  The tagged union \<open>StreamEvent\<close>. The tags the engine dispatches on or synthesises have a
  constructor each; every other tag is \<open>Other\<close> (tag, payload). \<open>InternalError\<close> and
  \<open>ApiError\<close> stand for the values of \<open>createInternalErrorEvent\<close> and
  \<open>createApiErrorEvent\<close>.
\<close>

datatype stream_event =
    Start "string option"
  | Finish string "string option"
  | ToolRequest "pending_tool_call list"
  | ResourceUpdate string jval
  | ToolOutputAvailable string "jval option"
  | ToolOutputError string string
  | ClientToolRequest string "pending_tool_call list" "tool_result list option"
  | InternalError string
  | ApiError nat string
  | Other string jval

text \<open>What a handler or a callback can throw: an \<open>Error\<close> with its message, or any other value.\<close>

datatype thrown = ErrorObj string | NonError

type_synonym tool_handler = "jval \<Rightarrow> thrown + jval"

text \<open>
  \<open>ToolHandlers\<close> is a JavaScript object: the handlers the caller registered are its own
  properties, and the property read \<open>toolHandlers[name]\<close> that the engine uses also finds
  what the object inherits from its prototype. An own property shadows an inherited one.
  A member is given by what calling it as \<open>handler (args)\<close> does.
\<close>

record tool_handlers =
  own_handlers :: "string \<rightharpoonup> tool_handler"
  inherited :: "string \<rightharpoonup> tool_handler"

definition handler_of :: "tool_handlers \<Rightarrow> string \<Rightarrow> tool_handler option" where
  "handler_of hs name =
     (case own_handlers hs name of Some h \<Rightarrow> Some h | None \<Rightarrow> inherited hs name)"

text \<open>
  The members of \<open>Object.prototype\<close>, which an object literal such as
  \<open>options.tools ?? {}\<close> inherits, by what they do when called as a bare function of one
  argument (\<open>this\<close> is \<open>undefined\<close> in module code). \<open>toString\<close> returns
  \<open>[object Undefined]\<close>; \<open>constructor\<close> is \<open>Object\<close>, which returns a new empty object for
  \<open>null\<close> and otherwise its argument as an object (a wrapped primitive is taken for the
  primitive, as \<open>JSON.stringify\<close> does); \<open>isPrototypeOf\<close> returns \<open>false\<close> for an argument
  that is not an object; every other call throws a \<open>TypeError\<close>, for \<open>__proto__\<close> because
  the value read is the prototype object and not a function. The text of a \<open>TypeError\<close>
  is the engine's and is a parameter.
\<close>

fun is_object :: "jval \<Rightarrow> bool" where
  "is_object (JArr xs) = True"
| "is_object (JObj kvs) = True"
| "is_object v = False"

definition object_prototype :: "(string \<Rightarrow> string) \<Rightarrow> string \<rightharpoonup> tool_handler" where
  "object_prototype type_error name =
     (if name = ''toString'' then Some (\<lambda>a. Inr (JStr ''[object Undefined]''))
      else if name = ''constructor'' then Some (\<lambda>a. Inr (if a = JNull then JObj [] else a))
      else if name = ''isPrototypeOf'' then
        Some (\<lambda>a. if is_object a then Inl (ErrorObj (type_error name)) else Inr (JBool False))
      else if name \<in> set [''toLocaleString'', ''valueOf'', ''hasOwnProperty'',
                           ''propertyIsEnumerable'', ''__defineGetter__'', ''__defineSetter__'',
                           ''__lookupGetter__'', ''__lookupSetter__'', ''__proto__'']
        then Some (\<lambda>a. Inl (ErrorObj (type_error name)))
      else None)"

text \<open>The object literal with the given own properties.\<close>

definition plain_object :: "(string \<Rightarrow> string) \<Rightarrow> (string \<rightharpoonup> tool_handler) \<Rightarrow> tool_handlers" where
  "plain_object type_error own = \<lparr>own_handlers = own, inherited = object_prototype type_error\<rparr>"

text \<open>JavaScript truthiness of an optional string: \<open>undefined\<close> and \<open>''\<close> are falsy.\<close>

fun truthy :: "string option \<Rightarrow> bool" where
  "truthy None = False"
| "truthy (Some s) = (s \<noteq> [])"

text \<open>The string behind a truthy optional string (\<open>if (!executionId) ... else use it\<close>).\<close>

fun truthy_id :: "string option \<Rightarrow> string option" where
  "truthy_id None = None"
| "truthy_id (Some s) = (if s = [] then None else Some s)"

section \<open>The environment of one invocation\<close>

text \<open>
  One physical round trip as the engine observes it: the answer of \<open>signal?.aborted\<close> at
  the top of the loop, and what \<open>fetch\<close> does. A readable body is the list of reads
  that return a chunk or throw, each with the answer of \<open>signal?.aborted\<close> polled just
  before it, then the poll before the read that returns \<open>done\<close>, then the poll after
  the reading loop.
\<close>

datatype read_result = Chunk string | ReadAbort | ReadFail string

datatype fetch_result =
    FetchAbort
  | FetchFail string
  | NotOk nat string
  | NoBody
  | Body "(bool \<times> read_result) list" bool bool

record round_trip =
  abortedAtStart :: bool
  fetched :: fetch_result

datatype outcome = Returned | Threw string | AwaitingFetch

record 'b run =
  events :: "stream_event list"
  requests :: "'b list"
  callbackCalls :: "(string \<times> jval) list"
  outcome :: outcome

text \<open>
  \<open>StreamExecutionConfig\<close>. \<open>parseEvent\<close> is \<open>safeParseStreamEvent (JSON.parse s)\<close>:
  \<open>None\<close> when \<open>JSON.parse\<close> throws or validation fails. The callback returns whether
  it threw.
\<close>

record 'b stream_config =
  toolHandlers :: tool_handlers
  buildBody :: "string option \<Rightarrow> tool_result list option \<Rightarrow> 'b"
  onResourceUpdate :: "(string \<Rightarrow> jval \<Rightarrow> thrown option) option"
  parseEvent :: "string \<Rightarrow> stream_event option"

section \<open>Frame decoding\<close>

text \<open>\<open>s.split('\n')\<close>: never empty; the last element is the text after the last newline.\<close>

fun split_nl :: "string \<Rightarrow> string list" where
  "split_nl [] = [[]]"
| "split_nl (c # cs) =
     (if c = CHR 0x0A then [] # split_nl cs
      else (case split_nl cs of [] \<Rightarrow> [[c]] | l # ls \<Rightarrow> (c # l) # ls))"

text \<open>\<open>line.startsWith('data: ') && line !== 'data: [DONE]'\<close>, then \<open>line.slice(6)\<close>.\<close>

definition is_data_line :: "string \<Rightarrow> bool" where
  "is_data_line line = (take 6 line = ''data: '' \<and> line \<noteq> ''data: [DONE]'')"

definition parse_line :: "(string \<Rightarrow> stream_event option) \<Rightarrow> string \<Rightarrow> stream_event option" where
  "parse_line p line = (if is_data_line line then p (drop 6 line) else None)"

section \<open>The continuation state machine\<close>

record loop_state =
  executionId :: "string option"
  pendingToolCalls :: "pending_tool_call list option"
  continueLoop :: bool

text \<open>The body of the \<open>for (const line of lines)\<close> loop after a successful parse.\<close>

fun handle_event ::
  "'b stream_config \<Rightarrow> loop_state \<Rightarrow> stream_event
     \<Rightarrow> loop_state \<times> stream_event list \<times> (string \<times> jval) list" where
  "handle_event cfg st (Start eid) =
     ((if truthy eid then st\<lparr>executionId := eid\<rparr> else st), [Start eid], [])"
| "handle_event cfg st (ToolRequest tcs) =
     (st\<lparr>pendingToolCalls := Some tcs\<rparr>, [], [])"
| "handle_event cfg st (Finish reason eid) =
     (if reason = ''tool-calls'' \<and> pendingToolCalls st \<noteq> None then (st, [], [])
      else (st\<lparr>continueLoop := False\<rparr>, [Finish reason eid], []))"
| "handle_event cfg st (ResourceUpdate name v) =
     (case onResourceUpdate cfg of
        None \<Rightarrow> (st, [ResourceUpdate name v], [])
      | Some cb \<Rightarrow>
          (case cb name v of
             None \<Rightarrow> (st, [ResourceUpdate name v], [(name, v)])
           | Some _ \<Rightarrow> (st, [], [(name, v)])))"
| "handle_event cfg st ev = (st, [ev], [])"

definition handle_line ::
  "'b stream_config \<Rightarrow> loop_state \<Rightarrow> string
     \<Rightarrow> loop_state \<times> stream_event list \<times> (string \<times> jval) list" where
  "handle_line cfg st line =
     (case parse_line (parseEvent cfg) line of
        None \<Rightarrow> (st, [], [])
      | Some ev \<Rightarrow> handle_event cfg st ev)"

fun handle_lines ::
  "'b stream_config \<Rightarrow> loop_state \<Rightarrow> string list
     \<Rightarrow> loop_state \<times> stream_event list \<times> (string \<times> jval) list" where
  "handle_lines cfg st [] = (st, [], [])"
| "handle_lines cfg st (l # ls) =
     (case handle_line cfg st l of
        (st1, evs1, calls1) \<Rightarrow>
          (case handle_lines cfg st1 ls of
             (st2, evs2, calls2) \<Rightarrow> (st2, evs1 @ evs2, calls1 @ calls2)))"

text \<open>How the \<open>while (!streamDone)\<close> loop is left.\<close>

datatype read_outcome = StreamDone | Stopped | ReadThrew string

fun read_loop ::
  "'b stream_config \<Rightarrow> loop_state \<Rightarrow> string \<Rightarrow> (bool \<times> read_result) list \<Rightarrow> bool
     \<Rightarrow> loop_state \<times> stream_event list \<times> (string \<times> jval) list \<times> read_outcome" where
  "read_loop cfg st buffer [] abortedBeforeDone =
     (if abortedBeforeDone then (st, [Finish ''stop'' None], [], Stopped)
      else (st, [], [], StreamDone))"
| "read_loop cfg st buffer ((aborted, r) # rs) abortedBeforeDone =
     (if aborted then (st, [Finish ''stop'' None], [], Stopped)
      else (case r of
              ReadAbort \<Rightarrow> (st, [Finish ''stop'' None], [], Stopped)
            | ReadFail e \<Rightarrow> (st, [], [], ReadThrew e)
            | Chunk v \<Rightarrow>
                (let segs = split_nl (buffer @ v) in
                 case handle_lines cfg st (butlast segs) of
                   (st1, evs1, calls1) \<Rightarrow>
                     (case read_loop cfg st1 (last segs) rs abortedBeforeDone of
                        (st2, evs2, calls2, ro) \<Rightarrow> (st2, evs1 @ evs2, calls1 @ calls2, ro)))))"

text \<open>One local tool call: the handler's failure becomes a result carrying an error string.\<close>

definition run_handler :: "tool_handler \<Rightarrow> pending_tool_call \<Rightarrow> tool_result" where
  "run_handler h tc =
     (case h (tc_args tc) of
        Inr r \<Rightarrow>
          \<lparr>tr_toolCallId = tc_toolCallId tc, tr_toolName = tc_toolName tc,
           tr_result = Some r, tr_error = None,
           tr_outputVariable = tc_outputVariable tc, tr_blockIndex = tc_blockIndex tc,
           tr_thread = tc_thread tc, tr_workerId = tc_workerId tc\<rparr>
      | Inl err \<Rightarrow>
          \<lparr>tr_toolCallId = tc_toolCallId tc, tr_toolName = tc_toolName tc,
           tr_result = None,
           tr_error = Some (case err of ErrorObj m \<Rightarrow> m | NonError \<Rightarrow> ''Tool execution failed''),
           tr_outputVariable = tc_outputVariable tc, tr_blockIndex = tc_blockIndex tc,
           tr_thread = tc_thread tc, tr_workerId = tc_workerId tc\<rparr>)"

definition serverTools :: "tool_handlers \<Rightarrow> pending_tool_call list \<Rightarrow> pending_tool_call list" where
  "serverTools hs tcs = filter (\<lambda>tc. handler_of hs (tc_toolName tc) \<noteq> None) tcs"

definition clientTools :: "tool_handlers \<Rightarrow> pending_tool_call list \<Rightarrow> pending_tool_call list" where
  "clientTools hs tcs = filter (\<lambda>tc. handler_of hs (tc_toolName tc) = None) tcs"

text \<open>
  \<open>Promise.all (serverTools.map (...))\<close>: the results in the order of \<open>serverTools\<close>. The
  filter keeps the calls for which the property read \<open>config.toolHandlers[tc.toolName]\<close> is
  truthy, and the map reads the same property again (\<open>config.toolHandlers[tc.toolName]!\<close>),
  so the map over the filtered list is written as one pass that skips the calls for which
  the read finds nothing.
\<close>

definition serverResults :: "tool_handlers \<Rightarrow> pending_tool_call list \<Rightarrow> tool_result list" where
  "serverResults hs tcs =
     List.map_filter
       (\<lambda>tc. map_option (\<lambda>h. run_handler h tc) (handler_of hs (tc_toolName tc))) tcs"

text \<open>\<open>if (tr.error) yield tool-output-error else yield tool-output-available\<close>.\<close>

definition tool_output_event :: "tool_result \<Rightarrow> stream_event" where
  "tool_output_event tr =
     (case tr_error tr of
        None \<Rightarrow> ToolOutputAvailable (tr_toolCallId tr) (tr_result tr)
      | Some e \<Rightarrow>
          (if e \<noteq> [] then ToolOutputError (tr_toolCallId tr) e
           else ToolOutputAvailable (tr_toolCallId tr) (tr_result tr)))"

definition finished :: "stream_event list \<Rightarrow> 'b list \<Rightarrow> (string \<times> jval) list \<Rightarrow> outcome \<Rightarrow> 'b run" where
  "finished evs reqs calls oc = \<lparr>events = evs, requests = reqs, callbackCalls = calls, outcome = oc\<rparr>"

definition prepend :: "stream_event list \<Rightarrow> 'b list \<Rightarrow> (string \<times> jval) list \<Rightarrow> 'b run \<Rightarrow> 'b run" where
  "prepend evs reqs calls r =
     \<lparr>events = evs @ events r, requests = reqs @ requests r,
      callbackCalls = calls @ callbackCalls r, outcome = outcome r\<rparr>"

text \<open>
  Lines 182 to 240: what happens after the stream has closed and the cancellation token
  was found unset. \<open>k\<close> is the rest of the \<open>while\<close> loop, entered with the computed
  results as \<open>toolResults\<close>.
\<close>

definition resolve_pending ::
  "'b stream_config \<Rightarrow> loop_state \<Rightarrow> 'b \<Rightarrow> stream_event list \<Rightarrow> (string \<times> jval) list
     \<Rightarrow> (tool_result list \<Rightarrow> 'b run) \<Rightarrow> 'b run" where
  "resolve_pending cfg st body evs calls k =
     (case pendingToolCalls st of
        Some (tc # tcs) \<Rightarrow>
          (let pending = tc # tcs;
               srv = serverResults (toolHandlers cfg) pending;
               cli = clientTools (toolHandlers cfg) pending;
               outs = map tool_output_event srv in
           if cli \<noteq> [] then
             (case truthy_id (executionId st) of
                None \<Rightarrow>
                  finished
                    (evs @ outs @ [InternalError ''Missing executionId for client-tool-request''])
                    [body] calls Returned
              | Some xid \<Rightarrow>
                  finished
                    (evs @ outs @
                     [ClientToolRequest xid cli (if srv \<noteq> [] then Some srv else None),
                      Finish ''client-tool-calls'' (Some xid)])
                    [body] calls Returned)
           else if continueLoop st then prepend (evs @ outs) [body] calls (k srv)
           else finished (evs @ outs) [body] calls Returned)
      | _ \<Rightarrow> finished evs [body] calls Returned)"

text \<open>
  The \<open>while (continueLoop)\<close> loop of \<open>executeStream\<close>, one round trip of the environment
  per iteration. When the trace of round trips is used up at a point where the engine
  would poll and fetch again, the run is \<open>AwaitingFetch\<close>.
\<close>

fun exec_loop ::
  "'b stream_config \<Rightarrow> string option \<Rightarrow> tool_result list option \<Rightarrow> round_trip list \<Rightarrow> 'b run" where
  "exec_loop cfg eid trs [] = finished [] [] [] AwaitingFetch"
| "exec_loop cfg eid trs (rt # rest) =
     (if abortedAtStart rt then finished [Finish ''stop'' None] [] [] Returned
      else
        (let body = buildBody cfg eid trs in
         case fetched rt of
           FetchAbort \<Rightarrow> finished [Finish ''stop'' None] [body] [] Returned
         | FetchFail e \<Rightarrow> finished [] [body] [] (Threw e)
         | NotOk status message \<Rightarrow> finished [ApiError status message] [body] [] Returned
         | NoBody \<Rightarrow> finished [InternalError ''Response body is not readable''] [body] [] Returned
         | Body reads abortedBeforeDone abortedAfter \<Rightarrow>
             (case read_loop cfg \<lparr>executionId = eid, pendingToolCalls = None, continueLoop = True\<rparr>
                     [] reads abortedBeforeDone of
                (st, evs, calls, ro) \<Rightarrow>
                  (case ro of
                     Stopped \<Rightarrow> finished evs [body] calls Returned
                   | ReadThrew e \<Rightarrow> finished evs [body] calls (Threw e)
                   | StreamDone \<Rightarrow>
                       (if abortedAfter then
                          finished (evs @ [Finish ''stop'' None]) [body] calls Returned
                        else
                          resolve_pending cfg st body evs calls
                            (\<lambda>srv. exec_loop cfg (executionId st) (Some srv) rest))))))"

text \<open>\<open>executeStream (config, payload, signal)\<close>: the payload gives the initial state.\<close>

record stream_payload =
  p_executionId :: "string option"
  p_toolResults :: "tool_result list option"

definition executeStream :: "'b stream_config \<Rightarrow> stream_payload \<Rightarrow> round_trip list \<Rightarrow> 'b run" where
  "executeStream cfg payload script = exec_loop cfg (p_executionId payload) (p_toolResults payload) script"

section \<open>The frame decoder on its own\<close>

text \<open>
  Lines 134 to 145 of the reading loop without the event dispatch: append the chunk to
  the buffer, split on newline, hold back the last fragment, and keep of the complete
  lines the data records. A chunk is the text \<open>TextDecoder.decode (value, {stream: true})\<close>
  returns for it; text is a list of bytes here, and the byte \<open>0x0A\<close> only ever encodes
  the newline.
\<close>

fun decode_records :: "string \<Rightarrow> string list \<Rightarrow> string list" where
  "decode_records buffer [] = []"
| "decode_records buffer (v # vs) =
     (let segs = split_nl (buffer @ v) in
      map (drop 6) (filter is_data_line (butlast segs)) @ decode_records (last segs) vs)"

text \<open>The same with the validator applied: the events handed to the dispatch.\<close>

fun decode_events :: "(string \<Rightarrow> stream_event option) \<Rightarrow> string \<Rightarrow> string list \<Rightarrow> stream_event list" where
  "decode_events p buffer [] = []"
| "decode_events p buffer (v # vs) =
     (let segs = split_nl (buffer @ v) in
      List.map_filter (parse_line p) (butlast segs) @ decode_events p (last segs) vs)"

text \<open>The dispatch over a list of validated events.\<close>

fun handle_events ::
  "'b stream_config \<Rightarrow> loop_state \<Rightarrow> stream_event list
     \<Rightarrow> loop_state \<times> stream_event list \<times> (string \<times> jval) list" where
  "handle_events cfg st [] = (st, [], [])"
| "handle_events cfg st (e # es) =
     (case handle_event cfg st e of
        (st1, evs1, calls1) \<Rightarrow>
          (case handle_events cfg st1 es of
             (st2, evs2, calls2) \<Rightarrow> (st2, evs1 @ evs2, calls1 @ calls2)))"

text \<open>Reads that all return a chunk, with the cancellation token never set.\<close>

definition chunk_reads :: "string list \<Rightarrow> (bool \<times> read_result) list" where
  "chunk_reads vs = map (\<lambda>v. (False, Chunk v)) vs"

section \<open>The SSE encoder\<close>

text \<open>
  \<open>toSSEStream\<close> of \<open>session.ts\<close>: one enqueued chunk \<open>data: <json>\n\n\<close> per event,
  then \<open>data: [DONE]\n\n\<close>; when iterating the source throws, one internal-error
  record instead of the sentinel. \<open>stringify\<close> is \<open>JSON.stringify\<close>.
\<close>

definition sse_record :: "string \<Rightarrow> string" where
  "sse_record payload = ''data: '' @ payload @ [CHR 0x0A, CHR 0x0A]"

definition toSSEStream ::
  "(stream_event \<Rightarrow> string) \<Rightarrow> stream_event list \<Rightarrow> thrown option \<Rightarrow> string list" where
  "toSSEStream stringify evs failure =
     map (\<lambda>e. sse_record (stringify e)) evs @
     (case failure of
        None \<Rightarrow> [sse_record ''[DONE]'']
      | Some err \<Rightarrow>
          [sse_record (stringify (InternalError
             (case err of ErrorObj m \<Rightarrow> m | NonError \<Rightarrow> ''Unknown error'')))])"

section \<open>The session facade's resource dispatch\<close>

text \<open>
  \<open>AgentSession\<close>: the constructor fills \<open>resourceMap\<close> from the resources in order
  (\<open>Map.set\<close>: a later resource of the same name replaces an earlier one), and
  \<open>handleResourceUpdate\<close> looks the name up and calls \<open>onUpdate\<close> on the resource found.
  The result is the list of \<open>onUpdate\<close> calls made, and whether the call threw.
\<close>

definition resourceMap_of :: "('r \<Rightarrow> string) \<Rightarrow> 'r list \<Rightarrow> (string \<rightharpoonup> 'r)" where
  "resourceMap_of name_of rs = fold (\<lambda>r m. m(name_of r \<mapsto> r)) rs Map.empty"

definition handleResourceUpdate ::
  "(string \<rightharpoonup> 'r) \<Rightarrow> ('r \<Rightarrow> jval \<Rightarrow> thrown option) \<Rightarrow> string \<Rightarrow> jval
     \<Rightarrow> ('r \<times> jval) list \<times> thrown option" where
  "handleResourceUpdate resourceMap onUpdate name v =
     (case resourceMap name of
        None \<Rightarrow> ([], None)
      | Some resource \<Rightarrow> ([(resource, v)], onUpdate resource v))"

text \<open>The callback the session passes to \<open>executeStream\<close> as \<open>onResourceUpdate\<close>.\<close>

definition session_callback ::
  "(string \<rightharpoonup> 'r) \<Rightarrow> ('r \<Rightarrow> jval \<Rightarrow> thrown option) \<Rightarrow> string \<Rightarrow> jval \<Rightarrow> thrown option" where
  "session_callback resourceMap onUpdate name v = snd (handleResourceUpdate resourceMap onUpdate name v)"

text \<open>
  \<open>AgentSession\<close>: its handlers and its resource mapping. The private \<open>executeStream\<close>
  passes to the shared \<open>executeStream\<close> the handlers, a body holding the properties of the
  request that are not \<open>undefined\<close>, and \<open>handleResourceUpdate\<close> as the resource-update
  callback. \<open>onUpdate\<close> is the method of the resources (\<open>resource.ts\<close>), by whether the
  call throws; \<open>void resource.onUpdate (value)\<close> discards what it returns.
\<close>

record 'r agent_session =
  session_toolHandlers :: tool_handlers
  session_resourceMap :: "string \<rightharpoonup> 'r"

record session_payload =
  s_triggerName :: "string option"
  s_input :: "jval option"
  s_executionId :: "string option"
  s_toolResults :: "tool_result list option"

record session_body =
  b_triggerName :: "string option"
  b_input :: "jval option"
  b_executionId :: "string option"
  b_toolResults :: "tool_result list option"

definition session_config ::
  "'r agent_session \<Rightarrow> ('r \<Rightarrow> jval \<Rightarrow> thrown option) \<Rightarrow> (string \<Rightarrow> stream_event option)
     \<Rightarrow> session_payload \<Rightarrow> session_body stream_config" where
  "session_config sess onUpdate p payload =
     \<lparr>toolHandlers = session_toolHandlers sess,
      buildBody = (\<lambda>eid trs. \<lparr>b_triggerName = s_triggerName payload, b_input = s_input payload,
                                b_executionId = eid, b_toolResults = trs\<rparr>),
      onResourceUpdate = Some (session_callback (session_resourceMap sess) onUpdate),
      parseEvent = p\<rparr>"

definition session_executeStream ::
  "'r agent_session \<Rightarrow> ('r \<Rightarrow> jval \<Rightarrow> thrown option) \<Rightarrow> (string \<Rightarrow> stream_event option)
     \<Rightarrow> session_payload \<Rightarrow> round_trip list \<Rightarrow> session_body run" where
  "session_executeStream sess onUpdate p payload script =
     executeStream (session_config sess onUpdate p payload)
       \<lparr>p_executionId = s_executionId payload, p_toolResults = s_toolResults payload\<rparr> script"

text \<open>The \<open>onUpdate\<close> calls the facade makes for the callback invocations of a run, in order.\<close>

definition resource_updates ::
  "(string \<rightharpoonup> 'r) \<Rightarrow> ('r \<Rightarrow> jval \<Rightarrow> thrown option) \<Rightarrow> (string \<times> jval) list \<Rightarrow> ('r \<times> jval) list" where
  "resource_updates resourceMap onUpdate calls =
     concat (map (\<lambda>(name, v). fst (handleResourceUpdate resourceMap onUpdate name v)) calls)"

section \<open>The worker facade\<close>

text \<open>
  The request bodies of the worker endpoint: \<open>{type: 'start', input}\<close> and
  \<open>{type: 'continue', executionId, toolResults}\<close>.
\<close>

datatype worker_body =
    StartBody jval
  | ContinueBody "string option" "tool_result list option"

subsection \<open>The inline loop \<open>executeWorkerStream\<close> of \<open>workers.ts\<close>\<close>

record worker_stream_config =
  w_toolHandlers :: tool_handlers
  w_parseEvent :: "string \<Rightarrow> stream_event option"

record worker_payload =
  w_input :: "jval option"
  w_executionId :: "string option"
  w_toolResults :: "tool_result list option"

text \<open>Lines 174 to 194: no resource-update callback here.\<close>

fun worker_handle_event ::
  "loop_state \<Rightarrow> stream_event \<Rightarrow> loop_state \<times> stream_event list" where
  "worker_handle_event st (Start eid) =
     ((if truthy eid then st\<lparr>executionId := eid\<rparr> else st), [Start eid])"
| "worker_handle_event st (ToolRequest tcs) = (st\<lparr>pendingToolCalls := Some tcs\<rparr>, [])"
| "worker_handle_event st (Finish reason eid) =
     (if reason = ''tool-calls'' \<and> pendingToolCalls st \<noteq> None then (st, [])
      else (st\<lparr>continueLoop := False\<rparr>, [Finish reason eid]))"
| "worker_handle_event st ev = (st, [ev])"

fun worker_handle_lines ::
  "worker_stream_config \<Rightarrow> loop_state \<Rightarrow> string list \<Rightarrow> loop_state \<times> stream_event list" where
  "worker_handle_lines wc st [] = (st, [])"
| "worker_handle_lines wc st (l # ls) =
     (case (case parse_line (w_parseEvent wc) l of
              None \<Rightarrow> (st, [])
            | Some ev \<Rightarrow> worker_handle_event st ev) of
        (st1, evs1) \<Rightarrow>
          (case worker_handle_lines wc st1 ls of
             (st2, evs2) \<Rightarrow> (st2, evs1 @ evs2)))"

fun worker_read_loop ::
  "worker_stream_config \<Rightarrow> loop_state \<Rightarrow> string \<Rightarrow> (bool \<times> read_result) list \<Rightarrow> bool
     \<Rightarrow> loop_state \<times> stream_event list \<times> read_outcome" where
  "worker_read_loop wc st buffer [] abortedBeforeDone =
     (if abortedBeforeDone then (st, [Finish ''stop'' None], Stopped)
      else (st, [], StreamDone))"
| "worker_read_loop wc st buffer ((aborted, r) # rs) abortedBeforeDone =
     (if aborted then (st, [Finish ''stop'' None], Stopped)
      else (case r of
              ReadAbort \<Rightarrow> (st, [Finish ''stop'' None], Stopped)
            | ReadFail e \<Rightarrow> (st, [], ReadThrew e)
            | Chunk v \<Rightarrow>
                (let segs = split_nl (buffer @ v) in
                 case worker_handle_lines wc st (butlast segs) of
                   (st1, evs1) \<Rightarrow>
                     (case worker_read_loop wc st1 (last segs) rs abortedBeforeDone of
                        (st2, evs2, ro) \<Rightarrow> (st2, evs1 @ evs2, ro)))))"

text \<open>Lines 214 to 236: the result objects built here have no \<open>workerId\<close> property.\<close>

definition worker_run_handler :: "tool_handler \<Rightarrow> pending_tool_call \<Rightarrow> tool_result" where
  "worker_run_handler h tc =
     (case h (tc_args tc) of
        Inr r \<Rightarrow>
          \<lparr>tr_toolCallId = tc_toolCallId tc, tr_toolName = tc_toolName tc,
           tr_result = Some r, tr_error = None,
           tr_outputVariable = tc_outputVariable tc, tr_blockIndex = tc_blockIndex tc,
           tr_thread = tc_thread tc, tr_workerId = None\<rparr>
      | Inl err \<Rightarrow>
          \<lparr>tr_toolCallId = tc_toolCallId tc, tr_toolName = tc_toolName tc,
           tr_result = None,
           tr_error = Some (case err of ErrorObj m \<Rightarrow> m | NonError \<Rightarrow> ''Tool execution failed''),
           tr_outputVariable = tc_outputVariable tc, tr_blockIndex = tc_blockIndex tc,
           tr_thread = tc_thread tc, tr_workerId = None\<rparr>)"

definition worker_serverResults :: "tool_handlers \<Rightarrow> pending_tool_call list \<Rightarrow> tool_result list" where
  "worker_serverResults hs tcs =
     List.map_filter
       (\<lambda>tc. map_option (\<lambda>h. worker_run_handler h tc) (handler_of hs (tc_toolName tc))) tcs"

definition worker_resolve_pending ::
  "worker_stream_config \<Rightarrow> loop_state \<Rightarrow> worker_body \<Rightarrow> stream_event list
     \<Rightarrow> (tool_result list \<Rightarrow> worker_body run) \<Rightarrow> worker_body run" where
  "worker_resolve_pending wc st body evs k =
     (case pendingToolCalls st of
        Some (tc # tcs) \<Rightarrow>
          (let pending = tc # tcs;
               srv = worker_serverResults (w_toolHandlers wc) pending;
               cli = clientTools (w_toolHandlers wc) pending;
               outs = map tool_output_event srv in
           if cli \<noteq> [] then
             (case truthy_id (executionId st) of
                None \<Rightarrow>
                  finished
                    (evs @ outs @ [InternalError ''Missing executionId for client-tool-request''])
                    [body] [] Returned
              | Some xid \<Rightarrow>
                  finished
                    (evs @ outs @
                     [ClientToolRequest xid cli (if srv \<noteq> [] then Some srv else None),
                      Finish ''client-tool-calls'' (Some xid)])
                    [body] [] Returned)
           else if continueLoop st then prepend (evs @ outs) [body] [] (k srv)
           else finished (evs @ outs) [body] [] Returned)
      | _ \<Rightarrow> finished evs [body] [] Returned)"

fun worker_exec_loop ::
  "worker_stream_config \<Rightarrow> jval option \<Rightarrow> string option \<Rightarrow> tool_result list option
     \<Rightarrow> round_trip list \<Rightarrow> worker_body run" where
  "worker_exec_loop wc input eid trs [] = finished [] [] [] AwaitingFetch"
| "worker_exec_loop wc input eid trs (rt # rest) =
     (if abortedAtStart rt then finished [Finish ''stop'' None] [] [] Returned
      else
        (let body = (case input of
                       Some i \<Rightarrow> if \<not> truthy eid then StartBody i else ContinueBody eid trs
                     | None \<Rightarrow> ContinueBody eid trs) in
         case fetched rt of
           FetchAbort \<Rightarrow> finished [Finish ''stop'' None] [body] [] Returned
         | FetchFail e \<Rightarrow> finished [] [body] [] (Threw e)
         | NotOk status message \<Rightarrow> finished [ApiError status message] [body] [] Returned
         | NoBody \<Rightarrow> finished [InternalError ''Response body is not readable''] [body] [] Returned
         | Body reads abortedBeforeDone abortedAfter \<Rightarrow>
             (case worker_read_loop wc \<lparr>executionId = eid, pendingToolCalls = None, continueLoop = True\<rparr>
                     [] reads abortedBeforeDone of
                (st, evs, ro) \<Rightarrow>
                  (case ro of
                     Stopped \<Rightarrow> finished evs [body] [] Returned
                   | ReadThrew e \<Rightarrow> finished evs [body] [] (Threw e)
                   | StreamDone \<Rightarrow>
                       (if abortedAfter then
                          finished (evs @ [Finish ''stop'' None]) [body] [] Returned
                        else
                          worker_resolve_pending wc st body evs
                            (\<lambda>srv. worker_exec_loop wc input (executionId st) (Some srv) rest))))))"

definition executeWorkerStream ::
  "worker_stream_config \<Rightarrow> worker_payload \<Rightarrow> round_trip list \<Rightarrow> worker_body run" where
  "executeWorkerStream wc payload script =
     worker_exec_loop wc (w_input payload) (w_executionId payload) (w_toolResults payload) script"

subsection \<open>The same facade over the shared \<open>executeStream\<close>\<close>

text \<open>
  \<open>WorkersApi.execute\<close> as written over \<open>executeStream\<close>: the handlers, the body
  \<open>!executionId ? {type: 'start', input} : {type: 'continue', executionId, toolResults}\<close>,
  no resource-update callback, and the empty payload.
\<close>

definition worker_execute_config ::
  "tool_handlers \<Rightarrow> (string \<Rightarrow> stream_event option) \<Rightarrow> jval \<Rightarrow> worker_body stream_config" where
  "worker_execute_config hs p input =
     \<lparr>toolHandlers = hs,
      buildBody = (\<lambda>eid trs. if \<not> truthy eid then StartBody input else ContinueBody eid trs),
      onResourceUpdate = None,
      parseEvent = p\<rparr>"

section \<open>Predicates on event sequences\<close>

fun is_finish :: "stream_event \<Rightarrow> bool" where
  "is_finish (Finish r e) = True"
| "is_finish ev = False"

fun is_client_tool_request :: "stream_event \<Rightarrow> bool" where
  "is_client_tool_request (ClientToolRequest x tcs srs) = True"
| "is_client_tool_request ev = False"

fun is_tool_output :: "string \<Rightarrow> stream_event \<Rightarrow> bool" where
  "is_tool_output tcid (ToolOutputAvailable i v) = (i = tcid)"
| "is_tool_output tcid (ToolOutputError i e) = (i = tcid)"
| "is_tool_output tcid ev = False"

section \<open>Sample inputs\<close>

definition call_A :: pending_tool_call where
  "call_A = \<lparr>tc_toolCallId = ''a'', tc_toolName = ''search'', tc_args = JStr ''q'',
             tc_outputVariable = None, tc_blockIndex = Some 0, tc_thread = None,
             tc_workerId = Some ''w1''\<rparr>"

definition call_B :: pending_tool_call where
  "call_B = \<lparr>tc_toolCallId = ''b'', tc_toolName = ''ask'', tc_args = JNull,
             tc_outputVariable = None, tc_blockIndex = Some 0, tc_thread = None,
             tc_workerId = None\<rparr>"

text \<open>The engine's text for a \<open>TypeError\<close>, in the samples.\<close>

definition sample_type_error :: "string \<Rightarrow> string" where
  "sample_type_error name = ''TypeError: '' @ name"

text \<open>\<open>{search: async () => 'found'}\<close> and \<open>{}\<close>.\<close>

text \<open>A call to a tool named \<open>toString\<close>, for which no handler is registered in the samples.\<close>

definition call_P :: pending_tool_call where
  "call_P = \<lparr>tc_toolCallId = ''p'', tc_toolName = ''toString'', tc_args = JNull,
             tc_outputVariable = None, tc_blockIndex = Some 0, tc_thread = None,
             tc_workerId = None\<rparr>"

definition sample_handlers :: tool_handlers where
  "sample_handlers = plain_object sample_type_error [''search'' \<mapsto> (\<lambda>a. Inr (JStr ''found''))]"

definition no_handlers :: tool_handlers where
  "no_handlers = plain_object sample_type_error Map.empty"

definition sample_parse :: "string \<Rightarrow> stream_event option" where
  "sample_parse s =
     (if s = ''S'' then Some (Start (Some ''x1''))
      else if s = ''T'' then Some (ToolRequest [call_A, call_B])
      else if s = ''A'' then Some (ToolRequest [call_A])
      else if s = ''E'' then Some (ToolRequest [])
      else if s = ''P'' then Some (ToolRequest [call_A, call_P])
      else if s = ''Q'' then Some (ToolRequest [call_P])
      else if s = ''F'' then Some (Finish ''tool-calls'' None)
      else if s = ''D'' then Some (Finish ''stop'' None)
      else if s = ''R'' then Some (ResourceUpdate ''X'' (JNum 1))
      else None)"

definition sample_cfg :: "(string option \<times> tool_result list option) stream_config" where
  "sample_cfg = \<lparr>toolHandlers = sample_handlers, buildBody = (\<lambda>e t. (e, t)),
                 onResourceUpdate = None, parseEvent = sample_parse\<rparr>"

definition bare_cfg :: "(string option \<times> tool_result list option) stream_config" where
  "bare_cfg = \<lparr>toolHandlers = no_handlers, buildBody = (\<lambda>e t. (e, t)),
               onResourceUpdate = None, parseEvent = sample_parse\<rparr>"

definition no_payload :: stream_payload where
  "no_payload = \<lparr>p_executionId = None, p_toolResults = None\<rparr>"

definition sample_stringify :: "stream_event \<Rightarrow> string" where
  "sample_stringify e =
     (if e = Start (Some ''x1'') then ''S''
      else if e = Finish ''stop'' None then ''D''
      else if e = ResourceUpdate ''X'' (JNum 1) then ''R''
      else ''?'')"

section \<open>Auxiliary notions\<close>

text \<open>Leaving the reading loop after the last chunk: the poll before the final read.\<close>

definition close_reading ::
  "bool \<Rightarrow> loop_state \<times> stream_event list \<times> (string \<times> jval) list
     \<Rightarrow> loop_state \<times> stream_event list \<times> (string \<times> jval) list \<times> read_outcome" where
  "close_reading abd r =
     (case r of (st, evs, calls) \<Rightarrow>
        if abd then (st, evs @ [Finish ''stop'' None], calls, Stopped)
        else (st, evs, calls, StreamDone))"

text \<open>Further sample inputs: a handler that throws \<open>new Error()\<close>, whose message is empty.\<close>

definition throwing_cfg :: "(string option \<times> tool_result list option) stream_config" where
  "throwing_cfg = \<lparr>toolHandlers =
                     plain_object sample_type_error [''search'' \<mapsto> (\<lambda>a. Inl (ErrorObj []))],
                   buildBody = (\<lambda>e t. (e, t)),
                   onResourceUpdate = None, parseEvent = sample_parse\<rparr>"

definition nl :: string where
  "nl = [CHR 0x0A]"

definition stream_of :: "string list \<Rightarrow> round_trip" where
  "stream_of vs = \<lparr>abortedAtStart = False, fetched = Body (chunk_reads vs) False False\<rparr>"

section \<open>Terminal events\<close>

definition is_terminal :: "stream_event \<Rightarrow> bool" where
  "is_terminal e = (is_finish e \<or> is_client_tool_request e)"

text \<open>
  An event sequence closed by exactly one terminal signal: its last event is a finish and
  no finish or client-tool-request comes before it, or its last two events are a
  client-tool-request and \<open>finish{client-tool-calls}\<close> and no finish or
  client-tool-request comes before them.
\<close>

definition closed_by_one_terminal :: "stream_event list \<Rightarrow> bool" where
  "closed_by_one_terminal evs =
     (case rev evs of
        [] \<Rightarrow> False
      | t # before \<Rightarrow>
          (case t of
             Finish r e \<Rightarrow>
               (case before of
                  [] \<Rightarrow> True
                | c # before' \<Rightarrow>
                    if is_client_tool_request c
                    then r = ''client-tool-calls'' \<and> \<not> list_ex is_terminal before'
                    else \<not> list_ex is_terminal before)
           | _ \<Rightarrow> False))"

text \<open>No pending tool call carries a \<open>workerId\<close>.\<close>

definition no_worker_ids :: "loop_state \<Rightarrow> bool" where
  "no_worker_ids st =
     (case pendingToolCalls st of None \<Rightarrow> True | Some tcs \<Rightarrow> list_all (\<lambda>tc. tc_workerId tc = None) tcs)"

fun is_resource_update :: "stream_event \<Rightarrow> bool" where
  "is_resource_update (ResourceUpdate name v) = True"
| "is_resource_update ev = False"

text \<open>
  A session with the one resource \<open>X\<close> (a resource is its name here), and a trigger request.
\<close>

definition sample_session :: "string agent_session" where
  "sample_session = \<lparr>session_toolHandlers = sample_handlers,
                      session_resourceMap = resourceMap_of id [''X'']\<rparr>"

definition other_session :: "string agent_session" where
  "other_session = \<lparr>session_toolHandlers = sample_handlers,
                     session_resourceMap = resourceMap_of id [''Z'']\<rparr>"

definition trigger_payload :: session_payload where
  "trigger_payload = \<lparr>s_triggerName = Some ''go'', s_input = None,
                       s_executionId = None, s_toolResults = None\<rparr>"

section \<open>Basic facts\<close>

lemma finished_sel [simp]:
  "events (finished evs reqs calls oc) = evs"
  "requests (finished evs reqs calls oc) = reqs"
  "callbackCalls (finished evs reqs calls oc) = calls"
  "outcome (finished evs reqs calls oc) = oc"
  by (simp_all add: finished_def)

lemma prepend_sel [simp]:
  "events (prepend evs reqs calls r) = evs @ events r"
  "requests (prepend evs reqs calls r) = reqs @ requests r"
  "callbackCalls (prepend evs reqs calls r) = calls @ callbackCalls r"
  "outcome (prepend evs reqs calls r) = outcome r"
  by (simp_all add: prepend_def)

lemma truthy_id_None [simp]: "(truthy_id x = None) = (\<not> truthy x)"
  by (cases x) auto

lemma truthy_id_falsy [simp]: "\<not> truthy x \<Longrightarrow> truthy_id x = None"
  by simp

lemma truthy_id_Some: "truthy_id x = Some s \<Longrightarrow> x = Some s \<and> s \<noteq> []"
  by (cases x) (auto split: if_splits)

lemma tool_output_event_not_terminal [simp]:
  "\<not> is_finish (tool_output_event r)" "\<not> is_client_tool_request (tool_output_event r)"
  by (simp_all add: tool_output_event_def split: option.splits)

section \<open>Cancellation before the first request\<close>

text \<open>
  C5. When the cancellation token is already set at the top of the loop, before any
  request is made, the invocation yields the single event \<open>finish{finishReason: stop}\<close>,
  issues no HTTP request, invokes no callback and returns.
\<close>

theorem cancel_before_request:
  assumes "abortedAtStart rt"
  shows "events (executeStream cfg payload (rt # rest)) = [Finish ''stop'' None]
       \<and> requests (executeStream cfg payload (rt # rest)) = []
       \<and> callbackCalls (executeStream cfg payload (rt # rest)) = []
       \<and> outcome (executeStream cfg payload (rt # rest)) = Returned"
  using assms by (simp add: executeStream_def)

theorem cancel_before_request_witness:
  "events (executeStream sample_cfg no_payload
            [\<lparr>abortedAtStart = True, fetched = Body [(False, Chunk ''data: S'')] False False\<rparr>])
     = [Finish ''stop'' None]
   \<and> requests (executeStream sample_cfg no_payload
            [\<lparr>abortedAtStart = True, fetched = Body [(False, Chunk ''data: S'')] False False\<rparr>])
     = []"
  using cancel_before_request
    [of "\<lparr>abortedAtStart = True, fetched = Body [(False, Chunk ''data: S'')] False False\<rparr>"
        sample_cfg no_payload "[]"]
  by simp

section \<open>Frame decoding: lines depend only on the concatenated text\<close>

lemma split_nl_ne [simp]: "split_nl s \<noteq> []"
  by (induction s) (auto split: list.splits)

lemma split_nl_append:
  "split_nl (a @ b) = butlast (split_nl a) @ split_nl (last (split_nl a) @ b)"
proof (induction a)
  case Nil show ?case by simp
next
  case (Cons c a)
  show ?case
  proof (cases "c = CHR 0x0A")
    case True
    then show ?thesis using Cons by simp
  next
    case False
    obtain l ls where s: "split_nl a = l # ls" by (cases "split_nl a") auto
    show ?thesis
    proof (cases ls)
      case Nil
      then show ?thesis using False s Cons by (auto split: list.splits)
    next
      case (Cons l2 ls2)
      then show ?thesis using False s Cons.IH by (auto split: list.splits)
    qed
  qed
qed

lemma butlast_split_nl_append:
  "butlast (split_nl (a @ b)) = butlast (split_nl a) @ butlast (split_nl (last (split_nl a) @ b))"
  by (subst split_nl_append) (simp add: butlast_append)

lemma last_split_nl_append:
  "last (split_nl (a @ b)) = last (split_nl (last (split_nl a) @ b))"
  by (subst split_nl_append) simp


lemma split_nl_no_newline: "CHR 0x0A \<notin> set s \<Longrightarrow> split_nl s = [s]"
  by (induction s) auto

lemma last_split_nl_no_newline: "CHR 0x0A \<notin> set (last (split_nl s))"
  by (induction s) (auto split: list.splits)

lemma butlast_split_nl_held_back [simp]: "butlast (split_nl (last (split_nl s))) = []"
  by (simp add: split_nl_no_newline last_split_nl_no_newline)

lemma butlast_split_nl_step:
  "butlast (split_nl (buf @ v @ w)) =
   butlast (split_nl (buf @ v)) @ butlast (split_nl (last (split_nl (buf @ v)) @ w))"
  using butlast_split_nl_append [of "buf @ v" w] by simp

lemma decode_records_concat:
  "CHR 0x0A \<notin> set buf \<Longrightarrow>
   decode_records buf vs = map (drop 6) (filter is_data_line (butlast (split_nl (buf @ concat vs))))"
proof (induction vs arbitrary: buf)
  case Nil
  then show ?case by (simp add: split_nl_no_newline)
next
  case (Cons v vs)
  have "decode_records (last (split_nl (buf @ v))) vs =
        map (drop 6) (filter is_data_line (butlast (split_nl (last (split_nl (buf @ v)) @ concat vs))))"
    by (rule Cons.IH) (rule last_split_nl_no_newline)
  then show ?case by (simp add: Let_def butlast_split_nl_step)
qed

lemma map_filter_app:
  "List.map_filter f (xs @ ys) = List.map_filter f xs @ List.map_filter f ys"
  by (simp add: List.map_filter_def)

lemma chunk_reads_simps [simp]:
  "chunk_reads [] = []"
  "chunk_reads (v # vs) = (False, Chunk v) # chunk_reads vs"
  by (simp_all add: chunk_reads_def)

lemma decode_events_concat:
  "CHR 0x0A \<notin> set buf \<Longrightarrow>
   decode_events p buf vs = List.map_filter (parse_line p) (butlast (split_nl (buf @ concat vs)))"
proof (induction vs arbitrary: buf)
  case Nil
  then show ?case by (simp add: split_nl_no_newline map_filter_simps)
next
  case (Cons v vs)
  have "decode_events p (last (split_nl (buf @ v))) vs =
        List.map_filter (parse_line p) (butlast (split_nl (last (split_nl (buf @ v)) @ concat vs)))"
    by (rule Cons.IH) (rule last_split_nl_no_newline)
  then show ?case by (simp add: Let_def butlast_split_nl_step map_filter_app)
qed

lemma handle_lines_append:
  "handle_lines cfg st (xs @ ys) =
     (case handle_lines cfg st xs of
        (st1, evs1, calls1) \<Rightarrow>
          (case handle_lines cfg st1 ys of
             (st2, evs2, calls2) \<Rightarrow> (st2, evs1 @ evs2, calls1 @ calls2)))"
  by (induction xs arbitrary: st) (auto split: prod.splits)

lemma handle_lines_events:
  "handle_lines cfg st ls = handle_events cfg st (List.map_filter (parse_line (parseEvent cfg)) ls)"
  by (induction ls arbitrary: st)
     (auto simp: handle_line_def map_filter_simps split: prod.splits option.splits)

lemma read_loop_chunks:
  "CHR 0x0A \<notin> set buf \<Longrightarrow>
   read_loop cfg st buf (chunk_reads vs) abd =
     close_reading abd (handle_lines cfg st (butlast (split_nl (buf @ concat vs))))"
proof (induction vs arbitrary: buf st)
  case Nil
  then show ?case by (simp add: close_reading_def split_nl_no_newline)
next
  case (Cons v vs)
  have ih: "\<And>st'. read_loop cfg st' (last (split_nl (buf @ v))) (chunk_reads vs) abd =
        close_reading abd (handle_lines cfg st' (butlast (split_nl (last (split_nl (buf @ v)) @ concat vs))))"
    by (rule Cons.IH) (rule last_split_nl_no_newline)
  show ?case
    using ih
    by (simp add: Let_def butlast_split_nl_step handle_lines_append
          close_reading_def split: prod.splits)
qed


text \<open>
  C6. Chunk-boundary invariance: two chunk sequences with the same concatenation give the
  same data records, the same validated events, and the same result of the whole reading
  loop (state, events yielded, callback calls, way of leaving the loop).
\<close>

theorem chunk_boundary_invariance:
  assumes "concat vs1 = concat vs2"
  shows "decode_records [] vs1 = decode_records [] vs2
       \<and> decode_events p [] vs1 = decode_events p [] vs2
       \<and> read_loop cfg st [] (chunk_reads vs1) abd = read_loop cfg st [] (chunk_reads vs2) abd"
  using assms by (simp add: decode_records_concat decode_events_concat read_loop_chunks)

theorem chunk_boundary_invariance_witness:
  "decode_records [] [''data: S'' @ [CHR 0x0A] @ ''da'', ''ta: D'', [CHR 0x0A]]
     = decode_records [] [''data: S'' @ [CHR 0x0A] @ ''data: D'' @ [CHR 0x0A]]
   \<and> decode_records [] [''data: S'' @ [CHR 0x0A] @ ''data: D'' @ [CHR 0x0A]] = [''S'', ''D'']"
proof -
  have h: "concat [''data: S'' @ [CHR 0x0A] @ ''da'', ''ta: D'', [CHR 0x0A]]
         = concat [''data: S'' @ [CHR 0x0A] @ ''data: D'' @ [CHR 0x0A]]"
    by simp
  have "decode_records [] [''data: S'' @ [CHR 0x0A] @ ''data: D'' @ [CHR 0x0A]] = [''S'', ''D'']"
    by (simp add: is_data_line_def)
  with chunk_boundary_invariance [OF h, of sample_parse sample_cfg] show ?thesis
    by blast
qed

section \<open>Encoding then decoding\<close>

lemma split_nl_line:
  "CHR 0x0A \<notin> set l \<Longrightarrow> split_nl (l @ CHR 0x0A # rest) = l # split_nl rest"
  by (induction l) auto

lemma split_nl_sse_record:
  "CHR 0x0A \<notin> set s \<Longrightarrow>
   split_nl (sse_record s @ rest) = (''data: '' @ s) # [] # split_nl rest"
proof -
  assume a: "CHR 0x0A \<notin> set s"
  have "CHR 0x0A \<notin> set (''data: '' @ s)" using a by simp
  from split_nl_line [OF this, of "CHR 0x0A # rest"]
  show ?thesis by (simp add: sse_record_def)
qed

lemma parse_line_data:
  "s \<noteq> ''[DONE]'' \<Longrightarrow> parse_line p (''data: '' @ s) = p s"
  by (simp add: parse_line_def is_data_line_def)

lemma parse_line_blank [simp]: "parse_line p [] = None"
  by (simp add: parse_line_def is_data_line_def)

lemma parse_line_done [simp]: "parse_line p ''data: [DONE]'' = None"
  by (simp add: parse_line_def is_data_line_def)

lemma decode_sse_lines:
  assumes "\<forall>e\<in>set evs. p (stringify e) = Some e \<and> CHR 0x0A \<notin> set (stringify e)
             \<and> stringify e \<noteq> ''[DONE]''"
  shows "List.map_filter (parse_line p)
           (butlast (split_nl (concat (map (\<lambda>e. sse_record (stringify e)) evs) @ sse_record ''[DONE]'')))
         = evs"
  using assms
proof (induction evs)
  case Nil
  have "split_nl (sse_record ''[DONE]'' @ []) = ''data: [DONE]'' # [] # split_nl []"
    using split_nl_sse_record [of "''[DONE]''" "[]"] by simp
  then show ?case by (simp add: map_filter_simps)
next
  case (Cons e evs)
  have e: "p (stringify e) = Some e" "CHR 0x0A \<notin> set (stringify e)" "stringify e \<noteq> ''[DONE]''"
    using Cons.prems by auto
  have ih: "List.map_filter (parse_line p)
           (butlast (split_nl (concat (map (\<lambda>e. sse_record (stringify e)) evs) @ sse_record ''[DONE]'')))
         = evs"
    using Cons by auto
  show ?case
    using ih e by (simp add: split_nl_sse_record map_filter_simps parse_line_data [simplified])
qed

text \<open>
  C7. Encoding a finite event sequence with \<open>toSSEStream\<close> and decoding the bytes, however
  the transport re-chunks them, with the frame decoder and the validator gives back the
  sequence; the \<open>[DONE]\<close> sentinel produces no event. \<open>JSON.stringify\<close> and the validator
  are parameters: on the events sent, parsing inverts serialising, and the serialised
  text holds no raw newline and is not the sentinel's payload.
\<close>

theorem sse_round_trip:
  assumes "\<forall>e\<in>set evs. p (stringify e) = Some e \<and> CHR 0x0A \<notin> set (stringify e)
             \<and> stringify e \<noteq> ''[DONE]''"
      and "concat vs = concat (toSSEStream stringify evs None)"
  shows "decode_events p [] vs = evs"
  using assms(2) decode_sse_lines [OF assms(1)]
  by (simp add: decode_events_concat toSSEStream_def)

theorem sse_round_trip_witness:
  "decode_events sample_parse []
     (toSSEStream sample_stringify [Start (Some ''x1''), ResourceUpdate ''X'' (JNum 1), Finish ''stop'' None] None)
   = [Start (Some ''x1''), ResourceUpdate ''X'' (JNum 1), Finish ''stop'' None]"
proof -
  have h: "\<forall>e\<in>set [Start (Some ''x1''), ResourceUpdate ''X'' (JNum 1), Finish ''stop'' None].
             sample_parse (sample_stringify e) = Some e \<and> CHR 0x0A \<notin> set (sample_stringify e)
             \<and> sample_stringify e \<noteq> ''[DONE]''"
    by (simp add: sample_parse_def sample_stringify_def)
  show ?thesis by (rule sse_round_trip [OF h]) simp
qed

section \<open>Resolving the pending tool calls\<close>

lemma serverResults_Cons:
  "serverResults hs (tc # tcs) =
     (case handler_of hs (tc_toolName tc) of None \<Rightarrow> serverResults hs tcs
      | Some h \<Rightarrow> run_handler h tc # serverResults hs tcs)"
  by (simp add: serverResults_def map_filter_simps split: option.splits)

lemma serverResults_Nil [simp]: "serverResults hs [] = []"
  by (simp add: serverResults_def map_filter_simps)

lemma serverResults_serverTools:
  "serverResults hs tcs = map (\<lambda>tc. run_handler (the (handler_of hs (tc_toolName tc))) tc) (serverTools hs tcs)"
  by (induction tcs) (auto simp: serverResults_Cons serverTools_def)

lemma length_serverResults: "length (serverResults hs tcs) = length (serverTools hs tcs)"
  by (simp add: serverResults_serverTools)


lemma exec_loop_stream_done:
  assumes "\<not> abortedAtStart rt"
      and "fetched rt = Body reads abd False"
      and "read_loop cfg \<lparr>executionId = eid, pendingToolCalls = None, continueLoop = True\<rparr> [] reads abd
             = (st, evs, calls, StreamDone)"
  shows "exec_loop cfg eid trs (rt # rest)
       = resolve_pending cfg st (buildBody cfg eid trs) evs calls
           (\<lambda>srv. exec_loop cfg (executionId st) (Some srv) rest)"
  using assms by (simp add: Let_def)

text \<open>
  In any iteration of the loop, whatever the state it was entered with: when the stream
  has closed without cancellation, the property read finds nothing for some pending call,
  and the variable \<open>executionId\<close> is still falsy, the engine emits the tool outputs of the
  other calls, then the internal-error event, and returns.
\<close>

lemma pause_without_execution_id:
  assumes "\<not> abortedAtStart rt"
      and "fetched rt = Body reads abd False"
      and "read_loop cfg \<lparr>executionId = eid, pendingToolCalls = None, continueLoop = True\<rparr> [] reads abd
             = (st, evs, calls, StreamDone)"
      and "pendingToolCalls st = Some pending"
      and "clientTools (toolHandlers cfg) pending \<noteq> []"
      and "\<not> truthy (executionId st)"
  shows "events (exec_loop cfg eid trs (rt # rest))
           = evs @ map tool_output_event (serverResults (toolHandlers cfg) pending)
                 @ [InternalError ''Missing executionId for client-tool-request'']
       \<and> outcome (exec_loop cfg eid trs (rt # rest)) = Returned
       \<and> requests (exec_loop cfg eid trs (rt # rest)) = [buildBody cfg eid trs]
       \<and> \<not> list_ex is_client_tool_request
             (drop (length evs) (events (exec_loop cfg eid trs (rt # rest))))"
proof -
  obtain tc tcs where p: "pending = tc # tcs"
    using assms(5) by (cases pending) (auto simp: clientTools_def)
  have ev: "events (exec_loop cfg eid trs (rt # rest))
           = evs @ map tool_output_event (serverResults (toolHandlers cfg) pending)
                 @ [InternalError ''Missing executionId for client-tool-request'']"
    using assms p by (simp add: Let_def resolve_pending_def)
  have oc: "outcome (exec_loop cfg eid trs (rt # rest)) = Returned"
    using assms p by (simp add: Let_def resolve_pending_def)
  have rq: "requests (exec_loop cfg eid trs (rt # rest)) = [buildBody cfg eid trs]"
    using assms p by (simp add: Let_def resolve_pending_def)
  have "\<not> list_ex is_client_tool_request
          (map tool_output_event (serverResults (toolHandlers cfg) pending)
             @ [InternalError ''Missing executionId for client-tool-request''])"
    by (simp add: list_ex_iff)
  with ev oc rq show ?thesis by simp
qed


text \<open>
  In any iteration: when the stream has closed without cancellation with the pending
  calls \<open>[A, B]\<close>, the property read finds a handler for \<open>A\<close> and nothing for \<open>B\<close>, and an
  execution identifier is known, the engine yields after the stream's events a
  tool-output event for \<open>A\<close>, one client-tool-request with the calls \<open>[B]\<close> and \<open>A\<close>'s
  result as server result, and \<open>finish{client-tool-calls}\<close>, and returns.
\<close>

lemma pause_for_unresolved_call:
  assumes "\<not> abortedAtStart rt"
      and "fetched rt = Body reads abd False"
      and "read_loop cfg \<lparr>executionId = eid, pendingToolCalls = None, continueLoop = True\<rparr> [] reads abd
             = (st, evs, calls, StreamDone)"
      and "pendingToolCalls st = Some [A, B]"
      and "handler_of (toolHandlers cfg) (tc_toolName A) = Some h"
      and "handler_of (toolHandlers cfg) (tc_toolName B) = None"
      and "executionId st = Some xid" and "xid \<noteq> []"
  shows "events (exec_loop cfg eid trs (rt # rest))
           = evs @ [tool_output_event (run_handler h A),
                    ClientToolRequest xid [B] (Some [run_handler h A]),
                    Finish ''client-tool-calls'' (Some xid)]
       \<and> is_tool_output (tc_toolCallId A) (tool_output_event (run_handler h A))
       \<and> requests (exec_loop cfg eid trs (rt # rest)) = [buildBody cfg eid trs]
       \<and> outcome (exec_loop cfg eid trs (rt # rest)) = Returned"
proof -
  have srv: "serverResults (toolHandlers cfg) [A, B] = [run_handler h A]"
    using assms(5,6) by (simp add: serverResults_Cons)
  have cli: "clientTools (toolHandlers cfg) [A, B] = [B]"
    using assms(5,6) by (simp add: clientTools_def)
  have out: "is_tool_output (tc_toolCallId A) (tool_output_event (run_handler h A))"
    by (simp add: tool_output_event_def run_handler_def split: sum.splits option.splits)
  have run: "exec_loop cfg eid trs (rt # rest)
           = finished (evs @ [tool_output_event (run_handler h A),
                    ClientToolRequest xid [B] (Some [run_handler h A]),
                    Finish ''client-tool-calls'' (Some xid)]) [buildBody cfg eid trs] calls Returned"
    unfolding exec_loop_stream_done [OF assms(1-3)]
    using assms(4,7,8) by (simp add: Let_def resolve_pending_def srv cli)
  show ?thesis unfolding run using out by simp
qed












section \<open>Names found on the prototype\<close>

lemma handler_of_own: "own_handlers hs name = Some h \<Longrightarrow> handler_of hs name = Some h"
  by (simp add: handler_of_def)

lemma handler_of_plain_toString:
  "own name = None \<Longrightarrow> name = ''toString'' \<Longrightarrow>
   handler_of (plain_object te own) name = Some (\<lambda>a. Inr (JStr ''[object Undefined]''))"
  by (simp add: handler_of_def plain_object_def object_prototype_def)

text \<open>
  C2 at an input where it fails: the handlers \<open>{search: ...}\<close>, an execution identifier
  captured from a start event, and a tool request with the calls \<open>A\<close> (\<open>search\<close>) and \<open>P\<close>
  (\<open>toString\<close>, for which no handler is registered). The property read finds
  \<open>Object.prototype.toString\<close> for \<open>P\<close>, so the split puts both calls in \<open>serverTools\<close>:
  the engine runs both, emits two tool outputs and no client-tool-request, and issues a
  further request with both results.
\<close>

theorem inherited_member_is_run_locally:
  "own_handlers (toolHandlers sample_cfg) (tc_toolName call_A) \<noteq> None
   \<and> own_handlers (toolHandlers sample_cfg) (tc_toolName call_P) = None
   \<and> executeStream sample_cfg no_payload
        [stream_of [''data: S'' @ nl, ''data: P'' @ nl], stream_of [''data: D'' @ nl]]
     = finished
         [Start (Some ''x1''),
          ToolOutputAvailable ''a'' (Some (JStr ''found'')),
          ToolOutputAvailable ''p'' (Some (JStr ''[object Undefined]'')),
          Finish ''stop'' None]
         [(None, None),
          (Some ''x1'', Some [run_handler (\<lambda>a. Inr (JStr ''found'')) call_A,
                              run_handler (\<lambda>a. Inr (JStr ''[object Undefined]'')) call_P])]
         [] Returned"
  by (simp add: executeStream_def no_payload_def stream_of_def nl_def Let_def
        handle_line_def parse_line_def is_data_line_def sample_parse_def sample_cfg_def
        resolve_pending_def serverResults_Cons clientTools_def prepend_def finished_def
        sample_handlers_def plain_object_def handler_of_def object_prototype_def
        call_A_def call_P_def run_handler_def tool_output_event_def)

text \<open>
  C4 at an input where it fails: no handler registered (\<open>{}\<close>), no execution identifier
  supplied or captured, and a tool request with the one call \<open>P\<close> (\<open>toString\<close>). The call
  has no matching handler, so the claim's internal-error event is due; the property read
  finds \<open>Object.prototype.toString\<close>, the call is run locally, and the engine emits its
  output and issues a further request. No internal-error event is emitted.
\<close>

theorem inherited_member_hides_missing_id:
  "own_handlers (toolHandlers bare_cfg) (tc_toolName call_P) = None
   \<and> executeStream bare_cfg no_payload
        [stream_of [''data: Q'' @ nl], stream_of [''data: D'' @ nl]]
     = finished
         [ToolOutputAvailable ''p'' (Some (JStr ''[object Undefined]'')), Finish ''stop'' None]
         [(None, None),
          (None, Some [run_handler (\<lambda>a. Inr (JStr ''[object Undefined]'')) call_P])]
         [] Returned"
  by (simp add: executeStream_def no_payload_def stream_of_def nl_def Let_def
        handle_line_def parse_line_def is_data_line_def sample_parse_def bare_cfg_def
        resolve_pending_def serverResults_Cons clientTools_def prepend_def finished_def
        no_handlers_def plain_object_def handler_of_def object_prototype_def
        call_P_def run_handler_def tool_output_event_def)

section \<open>Tool failures and tool-output events\<close>

lemma handler_failure_is_data:
  "h (tc_args tc) = Inl err \<Longrightarrow>
   tr_result (run_handler h tc) = None \<and>
   tr_error (run_handler h tc)
     = Some (case err of ErrorObj m \<Rightarrow> m | NonError \<Rightarrow> ''Tool execution failed'')"
  by (simp add: run_handler_def)

lemma tool_output_event_error:
  "tr_error r = Some e \<Longrightarrow> e \<noteq> [] \<Longrightarrow> tool_output_event r = ToolOutputError (tr_toolCallId r) e"
  by (simp add: tool_output_event_def)

lemma run_handler_id [simp]: "tr_toolCallId (run_handler h tc) = tc_toolCallId tc"
  by (simp add: run_handler_def split: sum.splits)

lemma tool_outputs_in_order:
  "map tr_toolCallId (serverResults hs tcs) = map tc_toolCallId (serverTools hs tcs)"
  by (simp add: serverResults_serverTools)

text \<open>
  C8 at the input where it fails: a handler that throws an \<open>Error\<close> with the empty message
  (\<open>throw new Error()\<close>). The failure is caught and becomes a result whose \<open>error\<close> is
  the empty string; \<open>if (tr.error)\<close> takes it for a success, and the event emitted for
  the call is \<open>tool-output-available\<close> with no output.
\<close>

theorem empty_error_message_reported_as_output:
  "tr_error (run_handler (\<lambda>a. Inl (ErrorObj [])) call_A) = Some []
   \<and> events (executeStream throwing_cfg no_payload
        [stream_of [''data: A'' @ nl], stream_of [''data: D'' @ nl]])
     = [ToolOutputAvailable ''a'' None, Finish ''stop'' None]"
  by (simp add: executeStream_def no_payload_def stream_of_def nl_def Let_def
        handle_line_def parse_line_def is_data_line_def sample_parse_def throwing_cfg_def
        resolve_pending_def serverResults_Cons clientTools_def plain_object_def handler_of_def
        call_A_def run_handler_def tool_output_event_def)

section \<open>Resource updates at the session facade\<close>

lemma session_callback_lookup:
  "session_callback m onUpdate name v = (case m name of None \<Rightarrow> None | Some r \<Rightarrow> onUpdate r v)"
  by (simp add: session_callback_def handleResourceUpdate_def split: option.splits)

lemma resource_updates_single:
  "resource_updates m onUpdate [(name, v)] = (case m name of None \<Rightarrow> [] | Some r \<Rightarrow> [(r, v)])"
  by (simp add: resource_updates_def handleResourceUpdate_def split: option.splits)

text \<open>
  One resource-update event at the dispatch of a session: the callback is invoked once
  with the name and the value, which makes one \<open>onUpdate\<close> call on the resource of that
  name and none for an unknown name; the event is forwarded unless that call threw.
\<close>

lemma session_resource_update:
  "handle_event (session_config sess onUpdate p payload) st (ResourceUpdate name v)
     = (st,
        (case session_resourceMap sess name of
           None \<Rightarrow> [ResourceUpdate name v]
         | Some r \<Rightarrow> (case onUpdate r v of None \<Rightarrow> [ResourceUpdate name v] | Some err \<Rightarrow> [])),
        [(name, v)])"
  by (simp add: session_config_def session_callback_lookup split: option.splits)

text \<open>
  C9 at an input where it fails: a session with the resource \<open>X\<close> whose \<open>onUpdate\<close> throws,
  and a stream carrying a resource-update for \<open>X\<close> and then \<open>finish{stop}\<close>. The callback
  is invoked once and makes the one \<open>onUpdate\<close> call; the exception leaves
  \<open>handleResourceUpdate\<close> and the callback inside the \<open>try\<close> of line 140, whose \<open>catch\<close>
  swallows it, and the \<open>yield\<close> of line 169 is not reached: the resource-update event is
  not forwarded.
\<close>

theorem throwing_update_drops_event:
  "decode_events sample_parse [] [''data: R'' @ nl, ''data: D'' @ nl]
     = [ResourceUpdate ''X'' (JNum 1), Finish ''stop'' None]
   \<and> events (session_executeStream sample_session (\<lambda>r v. Some (ErrorObj ''boom'')) sample_parse
        trigger_payload [stream_of [''data: R'' @ nl, ''data: D'' @ nl]])
     = [Finish ''stop'' None]
   \<and> callbackCalls (session_executeStream sample_session (\<lambda>r v. Some (ErrorObj ''boom'')) sample_parse
        trigger_payload [stream_of [''data: R'' @ nl, ''data: D'' @ nl]])
     = [(''X'', JNum 1)]
   \<and> resource_updates (session_resourceMap sample_session) (\<lambda>r v. Some (ErrorObj ''boom''))
        [(''X'', JNum 1)]
     = [(''X'', JNum 1)]
   \<and> outcome (session_executeStream sample_session (\<lambda>r v. Some (ErrorObj ''boom'')) sample_parse
        trigger_payload [stream_of [''data: R'' @ nl, ''data: D'' @ nl]])
     = Returned"
  by (simp add: session_executeStream_def executeStream_def session_config_def trigger_payload_def
        stream_of_def nl_def Let_def map_filter_simps
        handle_line_def parse_line_def is_data_line_def sample_parse_def
        resolve_pending_def session_callback_lookup resource_updates_single
        sample_session_def resourceMap_of_def)

text \<open>With an \<open>onUpdate\<close> that returns, the event is forwarded after the one update call.\<close>

lemma returning_update_forwards_event:
  "events (session_executeStream sample_session (\<lambda>r v. None) sample_parse
        trigger_payload [stream_of [''data: R'' @ nl, ''data: D'' @ nl]])
     = [ResourceUpdate ''X'' (JNum 1), Finish ''stop'' None]
   \<and> resource_updates (session_resourceMap sample_session) (\<lambda>r v. None)
        (callbackCalls (session_executeStream sample_session (\<lambda>r v. None) sample_parse
           trigger_payload [stream_of [''data: R'' @ nl, ''data: D'' @ nl]]))
     = [(''X'', JNum 1)]"
  by (simp add: session_executeStream_def executeStream_def session_config_def trigger_payload_def
        stream_of_def nl_def Let_def
        handle_line_def parse_line_def is_data_line_def sample_parse_def
        resolve_pending_def session_callback_lookup resource_updates_single
        sample_session_def resourceMap_of_def)

text \<open>A name that matches no resource: no update call, and the event is forwarded.\<close>

lemma unknown_resource_is_dropped_by_the_facade:
  "events (session_executeStream other_session (\<lambda>r v. Some (ErrorObj ''boom'')) sample_parse
        trigger_payload [stream_of [''data: R'' @ nl, ''data: D'' @ nl]])
     = [ResourceUpdate ''X'' (JNum 1), Finish ''stop'' None]
   \<and> resource_updates (session_resourceMap other_session) (\<lambda>r v. Some (ErrorObj ''boom''))
        (callbackCalls (session_executeStream other_session (\<lambda>r v. Some (ErrorObj ''boom'')) sample_parse
           trigger_payload [stream_of [''data: R'' @ nl, ''data: D'' @ nl]]))
     = []"
  by (simp add: session_executeStream_def executeStream_def session_config_def trigger_payload_def
        stream_of_def nl_def Let_def
        handle_line_def parse_line_def is_data_line_def sample_parse_def
        resolve_pending_def session_callback_lookup resource_updates_def handleResourceUpdate_def
        other_session_def resourceMap_of_def)

section \<open>The two worker loops\<close>

text \<open>
  C10 at an input where the two loops differ: a start event, then a tool request whose
  only call has a handler and carries \<open>workerId = w1\<close>. The continuation request built
  by \<open>executeWorkerStream\<close> carries the result without \<open>workerId\<close>; the one built by
  \<open>executeStream\<close> carries \<open>workerId = w1\<close>.
\<close>

theorem worker_result_drops_workerId:
  "requests (executeWorkerStream \<lparr>w_toolHandlers = sample_handlers, w_parseEvent = sample_parse\<rparr>
       \<lparr>w_input = Some JNull, w_executionId = None, w_toolResults = None\<rparr>
       [stream_of [''data: S'' @ nl, ''data: A'' @ nl], stream_of [''data: D'' @ nl]])
     = [StartBody JNull,
        ContinueBody (Some ''x1'')
          (Some [\<lparr>tr_toolCallId = ''a'', tr_toolName = ''search'', tr_result = Some (JStr ''found''),
                  tr_error = None, tr_outputVariable = None, tr_blockIndex = Some 0,
                  tr_thread = None, tr_workerId = None\<rparr>])]
   \<and> requests (executeStream (worker_execute_config sample_handlers sample_parse JNull) no_payload
       [stream_of [''data: S'' @ nl, ''data: A'' @ nl], stream_of [''data: D'' @ nl]])
     = [StartBody JNull,
        ContinueBody (Some ''x1'')
          (Some [\<lparr>tr_toolCallId = ''a'', tr_toolName = ''search'', tr_result = Some (JStr ''found''),
                  tr_error = None, tr_outputVariable = None, tr_blockIndex = Some 0,
                  tr_thread = None, tr_workerId = Some ''w1''\<rparr>])]"
  by (simp add: executeWorkerStream_def executeStream_def worker_execute_config_def
        no_payload_def stream_of_def nl_def Let_def
        handle_line_def parse_line_def is_data_line_def sample_parse_def
        resolve_pending_def worker_resolve_pending_def serverResults_Cons
        worker_serverResults_def map_filter_simps clientTools_def
        sample_handlers_def plain_object_def handler_of_def call_A_def run_handler_def
        worker_run_handler_def tool_output_event_def)

section \<open>One terminal signal per invocation\<close>

text \<open>
  C1 at the input the claim names: a stream carrying a tool request with an empty call
  list followed by \<open>finish{tool-calls}\<close>. The finish is suppressed, because the test
  \<open>pendingToolCalls\<close> of line 157 holds for the empty array; after the stream the test
  \<open>pendingToolCalls.length > 0\<close> of line 182 fails, so nothing is resolved and nothing is
  synthesised. The invocation returns having yielded no event at all.
\<close>

theorem empty_tool_request_ends_silently:
  "decode_events sample_parse [] [''data: E'' @ nl, ''data: F'' @ nl]
     = [ToolRequest [], Finish ''tool-calls'' None]
   \<and> executeStream sample_cfg no_payload [stream_of [''data: E'' @ nl, ''data: F'' @ nl]]
     = finished [] [(None, None)] [] Returned
   \<and> \<not> closed_by_one_terminal
         (events (executeStream sample_cfg no_payload [stream_of [''data: E'' @ nl, ''data: F'' @ nl]]))"
  by (simp add: executeStream_def no_payload_def stream_of_def nl_def Let_def map_filter_simps
        handle_line_def parse_line_def is_data_line_def sample_parse_def sample_cfg_def
        resolve_pending_def closed_by_one_terminal_def)

text \<open>The same finish with no tool request before it is forwarded and closes the sequence.\<close>

lemma finish_without_tool_request_is_forwarded:
  "executeStream sample_cfg no_payload [stream_of [''data: F'' @ nl]]
     = finished [Finish ''tool-calls'' None] [(None, None)] [] Returned
   \<and> closed_by_one_terminal
         (events (executeStream sample_cfg no_payload [stream_of [''data: F'' @ nl]]))"
  by (simp add: executeStream_def no_payload_def stream_of_def nl_def Let_def
        handle_line_def parse_line_def is_data_line_def sample_parse_def sample_cfg_def
        resolve_pending_def closed_by_one_terminal_def)

section \<open>Where the two worker loops agree\<close>

text \<open>
  Apart from the missing \<open>workerId\<close> the two loops agree: when no tool call the service
  sends carries a \<open>workerId\<close>, \<open>WorkersApi.execute\<close> over either loop gives the same run.
\<close>

lemma worker_handle_event_eq:
  "onResourceUpdate cfg = None \<Longrightarrow>
   handle_event cfg st e = (fst (worker_handle_event st e), snd (worker_handle_event st e), [])"
  by (cases e) auto

lemma worker_handle_event_ids:
  "no_worker_ids st \<Longrightarrow> (\<forall>tcs. e = ToolRequest tcs \<longrightarrow> list_all (\<lambda>tc. tc_workerId tc = None) tcs) \<Longrightarrow>
   no_worker_ids (fst (worker_handle_event st e))"
  by (cases e) (auto simp: no_worker_ids_def)

lemma worker_handle_lines_eq:
  assumes "onResourceUpdate cfg = None" "parseEvent cfg = w_parseEvent wc"
  shows "handle_lines cfg st ls
       = (fst (worker_handle_lines wc st ls), snd (worker_handle_lines wc st ls), [])"
  using assms
  by (induction ls arbitrary: st)
     (auto simp: handle_line_def worker_handle_event_eq split: prod.splits option.splits)

lemma worker_handle_lines_ids:
  assumes "\<forall>s tcs. w_parseEvent wc s = Some (ToolRequest tcs) \<longrightarrow> list_all (\<lambda>tc. tc_workerId tc = None) tcs"
  shows "no_worker_ids st \<Longrightarrow> no_worker_ids (fst (worker_handle_lines wc st ls))"
proof (induction ls arbitrary: st)
  case Nil
  then show ?case by simp
next
  case (Cons l ls)
  show ?case
  proof (cases "parse_line (w_parseEvent wc) l")
    case None
    then show ?thesis using Cons by (simp split: prod.splits)
  next
    case (Some e)
    then have "\<forall>tcs. e = ToolRequest tcs \<longrightarrow> list_all (\<lambda>tc. tc_workerId tc = None) tcs"
      using assms by (auto simp: parse_line_def split: if_splits)
    from worker_handle_event_ids [OF Cons.prems this]
    have "no_worker_ids (fst (worker_handle_event st e))" .
    from Cons.IH [OF this] show ?thesis using Some by (auto split: prod.splits)
  qed
qed

lemma worker_read_loop_eq:
  assumes "onResourceUpdate cfg = None" "parseEvent cfg = w_parseEvent wc"
  shows "read_loop cfg st buf reads abd
       = (fst (worker_read_loop wc st buf reads abd), fst (snd (worker_read_loop wc st buf reads abd)),
          [], snd (snd (worker_read_loop wc st buf reads abd)))"
proof (induction reads arbitrary: st buf)
  case Nil
  then show ?case by simp
next
  case (Cons r reads)
  obtain aborted rr where r: "r = (aborted, rr)" by (cases r)
  show ?case
    unfolding r
    by (cases rr)
       (simp_all add: Let_def worker_handle_lines_eq [OF assms] Cons.IH split: prod.splits)
qed

lemma worker_read_loop_ids:
  assumes "\<forall>s tcs. w_parseEvent wc s = Some (ToolRequest tcs) \<longrightarrow> list_all (\<lambda>tc. tc_workerId tc = None) tcs"
  shows "no_worker_ids st \<Longrightarrow> no_worker_ids (fst (worker_read_loop wc st buf reads abd))"
proof (induction reads arbitrary: st buf)
  case Nil
  then show ?case by simp
next
  case (Cons r reads)
  obtain aborted rr where r: "r = (aborted, rr)" by (cases r)
  show ?case
  proof (cases rr)
    case (Chunk v)
    obtain st1 evs1 where h1: "worker_handle_lines wc st (butlast (split_nl (buf @ v))) = (st1, evs1)"
      by (cases "worker_handle_lines wc st (butlast (split_nl (buf @ v)))") auto
    have "no_worker_ids st1"
      using worker_handle_lines_ids [OF assms Cons.prems, of "butlast (split_nl (buf @ v))"] h1 by simp
    from Cons.IH [OF this, of "last (split_nl (buf @ v))"] show ?thesis
      using Cons.prems h1 by (auto simp: r Chunk Let_def split: prod.splits)
  next
    case ReadAbort
    then show ?thesis using Cons.prems by (simp add: r)
  next
    case (ReadFail x)
    then show ?thesis using Cons.prems by (simp add: r)
  qed
qed

lemma worker_run_handler_eq:
  "tc_workerId tc = None \<Longrightarrow> worker_run_handler h tc = run_handler h tc"
  by (simp add: worker_run_handler_def run_handler_def split: sum.splits)

lemma worker_serverResults_eq:
  "list_all (\<lambda>tc. tc_workerId tc = None) tcs \<Longrightarrow> worker_serverResults hs tcs = serverResults hs tcs"
  by (induction tcs)
     (auto simp: worker_serverResults_def serverResults_def map_filter_simps worker_run_handler_eq
           split: option.splits)

lemma worker_loops_agree_without_workerId:
  assumes "\<forall>s tcs. p s = Some (ToolRequest tcs) \<longrightarrow> list_all (\<lambda>tc. tc_workerId tc = None) tcs"
  shows "worker_exec_loop \<lparr>w_toolHandlers = hs, w_parseEvent = p\<rparr> (Some input) eid trs script
       = exec_loop (worker_execute_config hs p input) eid trs script"
proof (induction script arbitrary: eid trs)
  case Nil
  show ?case by simp
next
  case (Cons rt rest)
  let ?wc = "\<lparr>w_toolHandlers = hs, w_parseEvent = p\<rparr>"
  let ?cfg = "worker_execute_config hs p input"
  have c1: "onResourceUpdate ?cfg = None" and c2: "parseEvent ?cfg = w_parseEvent ?wc"
    and c3: "toolHandlers ?cfg = hs"
    and c4: "\<And>e t. buildBody ?cfg e t = (if \<not> truthy e then StartBody input else ContinueBody e t)"
    by (simp_all add: worker_execute_config_def)
  have wp: "\<forall>s tcs. w_parseEvent ?wc s = Some (ToolRequest tcs) \<longrightarrow> list_all (\<lambda>tc. tc_workerId tc = None) tcs"
    using assms by simp
  have st0: "no_worker_ids \<lparr>executionId = eid, pendingToolCalls = None, continueLoop = True\<rparr>"
    by (simp add: no_worker_ids_def)
  have res: "\<And>st body evs.
      no_worker_ids st \<Longrightarrow>
      worker_resolve_pending ?wc st body evs
        (\<lambda>srv. worker_exec_loop ?wc (Some input) (executionId st) (Some srv) rest)
      = resolve_pending ?cfg st body evs []
        (\<lambda>srv. exec_loop ?cfg (executionId st) (Some srv) rest)"
    by (auto simp: worker_resolve_pending_def resolve_pending_def c3 Let_def no_worker_ids_def
          worker_serverResults_eq Cons.IH split: option.splits list.splits)
  show ?case
  proof (cases "fetched rt")
    case (Body reads abd aba)
    obtain st evs ro where w: "worker_read_loop ?wc
                 \<lparr>executionId = eid, pendingToolCalls = None, continueLoop = True\<rparr> [] reads abd
                 = (st, evs, ro)"
      by (cases "worker_read_loop ?wc
                 \<lparr>executionId = eid, pendingToolCalls = None, continueLoop = True\<rparr> [] reads abd") auto
    have ids: "no_worker_ids st"
      using worker_read_loop_ids [OF wp st0, of "[]" reads abd] w by simp
    have r: "read_loop ?cfg \<lparr>executionId = eid, pendingToolCalls = None, continueLoop = True\<rparr> [] reads abd
               = (st, evs, [], ro)"
      using worker_read_loop_eq [OF c1 c2, of _ "[]" reads abd] w by simp
    show ?thesis
      using w r res [OF ids]
      by (simp add: Body Let_def c4 split: read_outcome.splits del: truthy_id.simps)
  qed (simp_all add: Let_def c4)
qed

section \<open>Resource updates over a whole stream\<close>

text \<open>
  Over a whole reading loop, with a callback that returns: the callback calls are, in
  order, the names and values of the resource-update events yielded.
\<close>

lemma handle_event_callback_calls:
  "onResourceUpdate cfg = Some cb \<Longrightarrow> \<forall>n v. cb n v = None \<Longrightarrow>
   handle_event cfg st e = (st', evs, calls) \<Longrightarrow>
   map (\<lambda>(n, v). ResourceUpdate n v) calls = filter is_resource_update evs"
  by (cases e) (auto split: if_splits)

lemma handle_lines_callback_calls:
  "onResourceUpdate cfg = Some cb \<Longrightarrow> \<forall>n v. cb n v = None \<Longrightarrow>
   handle_lines cfg st ls = (st', evs, calls) \<Longrightarrow>
   map (\<lambda>(n, v). ResourceUpdate n v) calls = filter is_resource_update evs"
proof (induction ls arbitrary: st st' evs calls)
  case Nil
  then show ?case by simp
next
  case (Cons l ls)
  obtain st1 evs1 calls1 where h1: "handle_line cfg st l = (st1, evs1, calls1)"
    by (cases "handle_line cfg st l") auto
  obtain st2 evs2 calls2 where h2: "handle_lines cfg st1 ls = (st2, evs2, calls2)"
    by (cases "handle_lines cfg st1 ls") auto
  have e1: "map (\<lambda>(n, v). ResourceUpdate n v) calls1 = filter is_resource_update evs1"
    using h1 Cons.prems(1,2)
    by (auto simp: handle_line_def split: option.splits dest: handle_event_callback_calls)
  have e2: "map (\<lambda>(n, v). ResourceUpdate n v) calls2 = filter is_resource_update evs2"
    using Cons.IH [OF Cons.prems(1,2) h2] .
  show ?case using Cons.prems(3) h1 h2 e1 e2 by auto
qed

lemma read_loop_callback_calls:
  "onResourceUpdate cfg = Some cb \<Longrightarrow> \<forall>n v. cb n v = None \<Longrightarrow>
   read_loop cfg st buf reads abd = (st', evs, calls, ro) \<Longrightarrow>
   map (\<lambda>(n, v). ResourceUpdate n v) calls = filter is_resource_update evs"
proof (induction reads arbitrary: st buf st' evs calls ro)
  case Nil
  then show ?case by (auto split: if_splits)
next
  case (Cons r reads)
  obtain aborted rr where r: "r = (aborted, rr)" by (cases r)
  show ?case
  proof (cases rr)
    case (Chunk v)
    obtain st1 evs1 calls1 where h1:
      "handle_lines cfg st (butlast (split_nl (buf @ v))) = (st1, evs1, calls1)"
      by (cases "handle_lines cfg st (butlast (split_nl (buf @ v)))") auto
    obtain st2 evs2 calls2 ro2 where h2:
      "read_loop cfg st1 (last (split_nl (buf @ v))) reads abd = (st2, evs2, calls2, ro2)"
      by (cases "read_loop cfg st1 (last (split_nl (buf @ v))) reads abd") auto
    have e1: "map (\<lambda>(n, v). ResourceUpdate n v) calls1 = filter is_resource_update evs1"
      using handle_lines_callback_calls [OF Cons.prems(1,2) h1] .
    have e2: "map (\<lambda>(n, v). ResourceUpdate n v) calls2 = filter is_resource_update evs2"
      using Cons.IH [OF Cons.prems(1,2) h2] .
    show ?thesis
      using Cons.prems(3) r Chunk h1 h2 e1 e2 by (auto simp: Let_def split: if_splits)
  next
    case ReadAbort
    then show ?thesis using Cons.prems(3) r by (auto split: if_splits)
  next
    case (ReadFail x)
    then show ?thesis using Cons.prems(3) r by (auto split: if_splits)
  qed
qed

end
